theory Spec2Isabelle
  imports Complex_Main "HOL-Library.Sublist" "HOL-Library.Char_ord" "HOL-Library.Multiset"
    "HOL-Library.AList" "HOL-Library.List_Lexorder"
begin

section \<open>JavaScript strings\<close>

text \<open>
  A JavaScript string is a sequence of code units. The embedding covers texts whose code
  units are below 256 (one \<open>char\<close> each); the case mappings act on the ASCII letters and
  leave every other code unit as it is, which is what \<open>toLowerCase\<close> and \<open>toUpperCase\<close>
  do on ASCII text.
\<close>

definition is_upper :: "char \<Rightarrow> bool" where
  "is_upper c = (CHR ''A'' \<le> c \<and> c \<le> CHR ''Z'')"

definition is_lower :: "char \<Rightarrow> bool" where
  "is_lower c = (CHR ''a'' \<le> c \<and> c \<le> CHR ''z'')"

definition is_digit :: "char \<Rightarrow> bool" where
  "is_digit c = (CHR ''0'' \<le> c \<and> c \<le> CHR ''9'')"

definition is_space :: "char \<Rightarrow> bool" where
  \<comment> \<open>white space and line terminators of ECMAScript below 256: TAB, LF, VT, FF, CR, SP, NBSP\<close>
  "is_space c = ((CHR 0x09 \<le> c \<and> c \<le> CHR 0x0D) \<or> c = CHR 0x20 \<or> c = CHR 0xA0)"

text \<open>
  An upper-case ASCII letter and its lower-case form differ in the bit of value 32 only.
\<close>

definition lower_char :: "char \<Rightarrow> char" where
  "lower_char c =
     (if is_upper c
      then (case c of Char b0 b1 b2 b3 b4 b5 b6 b7 \<Rightarrow> Char b0 b1 b2 b3 b4 True b6 b7)
      else c)"

definition upper_char :: "char \<Rightarrow> char" where
  "upper_char c =
     (if is_lower c
      then (case c of Char b0 b1 b2 b3 b4 b5 b6 b7 \<Rightarrow> Char b0 b1 b2 b3 b4 False b6 b7)
      else c)"

definition toLowerCase :: "string \<Rightarrow> string" where
  "toLowerCase s = map lower_char s"

definition toUpperCase :: "string \<Rightarrow> string" where
  "toUpperCase s = map upper_char s"

definition trim :: "string \<Rightarrow> string" where
  "trim s = rev (dropWhile is_space (rev (dropWhile is_space s)))"

text \<open>\<open>s.split(c)\<close> for a one-character separator: the empty string gives one empty piece.\<close>

fun split_on :: "char \<Rightarrow> string \<Rightarrow> string list" where
  "split_on sep [] = [[]]"
| "split_on sep (c # cs) =
     (if c = sep then [] # split_on sep cs
      else (case split_on sep cs of
              [] \<Rightarrow> [[c]]
            | p # ps \<Rightarrow> (c # p) # ps))"

text \<open>\<open>xs.join(sep)\<close>\<close>

fun join :: "string \<Rightarrow> string list \<Rightarrow> string" where
  "join sep [] = []"
| "join sep [x] = x"
| "join sep (x # y # ys) = x @ sep @ join sep (y # ys)"

text \<open>\<open>s.includes(t)\<close>: \<open>t\<close> occurs in \<open>s\<close> as a contiguous run.\<close>

fun str_includes :: "string \<Rightarrow> string \<Rightarrow> bool" where
  "str_includes [] t = (t = [])"
| "str_includes (c # cs) t = (prefix t (c # cs) \<or> str_includes cs t)"

text \<open>\<open>xs.indexOf(x)\<close>, \<open>None\<close> for -1.\<close>

fun indexOf :: "'a list \<Rightarrow> 'a \<Rightarrow> nat option" where
  "indexOf [] x = None"
| "indexOf (y # ys) x = (if y = x then Some 0 else map_option Suc (indexOf ys x))"

section \<open>Plain objects used as tables\<close>

text \<open>
  A table written as an object literal answers a lookup \<open>table[key]\<close> with its own value
  for an own key, and with the member inherited from \<open>Object.prototype\<close> for one of the
  names below; every such member is a function or an object, hence truthy and not a string.
\<close>

definition object_prototype_keys :: "string list" where
  "object_prototype_keys =
     [''constructor'', ''__defineGetter__'', ''__defineSetter__'', ''hasOwnProperty'',
      ''__lookupGetter__'', ''__lookupSetter__'', ''isPrototypeOf'',
      ''propertyIsEnumerable'', ''toString'', ''valueOf'', ''__proto__'',
      ''toLocaleString'']"

definition inherited :: "string \<Rightarrow> bool" where
  "inherited k = (k \<in> set object_prototype_keys)"

datatype 'a member = Own 'a | Inherited

definition lookup :: "(string \<times> 'a) list \<Rightarrow> string \<Rightarrow> 'a member option" where
  "lookup table k =
     (case map_of table k of
        Some v \<Rightarrow> Some (Own v)
      | None \<Rightarrow> if inherited k then Some Inherited else None)"

datatype js_error = TypeError | ReferenceError | Error string

section \<open>addressParser.js\<close>

definition streetSuffixes :: "(string \<times> string) list" where
  "streetSuffixes =
     [(''avenue'', ''Ave''), (''ave'', ''Ave''),
      (''street'', ''St''), (''st'', ''St''),
      (''road'', ''Rd''), (''rd'', ''Rd''),
      (''drive'', ''Dr''), (''dr'', ''Dr''),
      (''boulevard'', ''Blvd''), (''blvd'', ''Blvd''),
      (''lane'', ''Ln''), (''ln'', ''Ln''),
      (''court'', ''Ct''), (''ct'', ''Ct''),
      (''circle'', ''Cir''), (''cir'', ''Cir''),
      (''crescent'', ''Cres''), (''cres'', ''Cres''),
      (''place'', ''Pl''), (''pl'', ''Pl''),
      (''way'', ''Way''),
      (''terrace'', ''Terr''), (''terr'', ''Terr'')]"

text \<open>\<open>isNumeric\<close>: the test \<open>/^\d+$/\<close>, one or more decimal digits and nothing else.\<close>

definition isNumeric :: "string \<Rightarrow> bool" where
  "isNumeric str = (str \<noteq> [] \<and> list_all is_digit str)"

definition capitalizeWord :: "string \<Rightarrow> string" where
  "capitalizeWord word = toUpperCase (take 1 word) @ toLowerCase (drop 1 word)"

definition majorCities :: "string list" where
  "majorCities =
     [''toronto'', ''montreal'', ''vancouver'', ''calgary'', ''edmonton'', ''ottawa'', ''winnipeg'',
      ''quebec'', ''hamilton'', ''kitchener'', ''london'', ''victoria'', ''halifax'', ''oshawa'',
      ''windsor'', ''saskatoon'', ''regina'', ''sherbrooke'', ''barrie'', ''kelowna'', ''abbotsford'',
      ''kingston'', ''sudbury'', ''saguenay'', ''trois-rivieres'', ''guelph'', ''cambridge'',
      ''whitby'', ''ajax'', ''langley'', ''saanich'', ''terrebonne'', ''milton'', ''st-catharines'',
      ''new-westminster'', ''coquitlam'', ''richmond'', ''burlington'', ''burnaby'', ''laval'',
      ''longueuil'', ''mississauga'', ''brampton'', ''markham'', ''vaughan'', ''richmond-hill'']"

text \<open>
  \<open>isLikelyCity(part, remainingParts)\<close>. The caller passes \<open>parts.slice(i)\<close>, so
  \<open>remainingParts[0]\<close> is \<open>part\<close> itself.
\<close>

definition isLikelyCity :: "string \<Rightarrow> string list \<Rightarrow> bool" where
  "isLikelyCity part remainingParts =
     (let lowerPart = toLowerCase part in
      if lowerPart = ''richmond'' \<and> length remainingParts > 0
           \<and> toLowerCase (hd remainingParts) = ''hill'' then True
      else if lowerPart = ''north'' \<and> length remainingParts > 0
           \<and> toLowerCase (hd remainingParts) = ''york'' then True
      else lowerPart \<in> set majorCities \<or> length remainingParts \<le> 3)"

record components =
  unitNumber :: string
  streetNumber :: string
  streetName :: string
  streetType :: "string member"
  city :: string
  neighborhood :: string

text \<open>
  \<open>formatAddress\<close>. \<open>streetType\<close> holds what the suffix lookup returned; an inherited
  member is truthy and has no \<open>toUpperCase\<close>, so the call raises a TypeError.
\<close>

definition formatAddress :: "components \<Rightarrow> js_error + string" where
  "formatAddress c =
     (let a0 = [];
          a1 = (if unitNumber c \<noteq> [] then a0 @ unitNumber c @ '' - '' else a0);
          a2 = (if streetNumber c \<noteq> [] then a1 @ streetNumber c @ '' '' else a1);
          a3 = (if streetName c \<noteq> [] then a2 @ toUpperCase (streetName c) @ '' '' else a2)
      in case streetType c of
           Inherited \<Rightarrow> Inl TypeError
         | Own t \<Rightarrow>
             (let a4 = (if t \<noteq> [] then a3 @ toUpperCase t else a3);
                  a5 = (if city c \<noteq> [] then a4 @ '', '' @ city c @ '', Ontario'' else a4)
              in Inr (trim a5)))"

text \<open>
  The street scan, lines 85 to 100: the loop over \<open>parts\<close> from index \<open>i\<close>, given the
  tokens from \<open>i\<close> on; it returns the index reached, the street name words and the
  street type.
\<close>

fun street_scan :: "string list \<Rightarrow> nat \<Rightarrow> string list \<Rightarrow> nat \<times> string list \<times> string member" where
  "street_scan [] i name = (i, name, Own [])"
| "street_scan (part # rest) i name =
     (case lookup streetSuffixes part of
        Some v \<Rightarrow> (i + 1, name, v)
      | None \<Rightarrow>
          if isLikelyCity part (part # rest) then (i, name, Own [])
          else street_scan rest (i + 1) (name @ [capitalizeWord part]))"

text \<open>The city step, lines 103 to 142: the new index, the street name words and the city.\<close>

definition city_step :: "string list \<Rightarrow> nat \<Rightarrow> string list \<Rightarrow> nat \<times> string list \<times> string" where
  "city_step parts i name =
     (if i < length parts then
        (let currentPart = toLowerCase (parts ! i);
             remainingParts = drop (i + 1) parts
         in if currentPart = ''richmond'' \<and> length remainingParts > 0
               \<and> toLowerCase (hd remainingParts) = ''hill'' then (i + 2, name, ''Richmond Hill'')
            else if currentPart = ''north'' \<and> length remainingParts > 0
               \<and> toLowerCase (hd remainingParts) = ''york'' then (i + 2, name, ''North York'')
            else if currentPart = ''east'' \<and> length remainingParts > 0
               \<and> toLowerCase (hd remainingParts) = ''york'' then (i + 2, name, ''East York'')
            else if currentPart = ''oshawa'' then (i + 1, name, ''Oshawa'')
            else if currentPart = ''e'' \<and> ''oshawa'' \<in> set parts then
               (case indexOf parts ''oshawa'' of
                  Some oshawaIndex \<Rightarrow> (oshawaIndex + 1, name @ [''E''], ''Oshawa'')
                | None \<Rightarrow> (i, name @ [''E''], ''Oshawa''))
            else if currentPart = ''vaughan'' then (i + 1, name, ''Vaughan'')
            else if currentPart = ''n'' \<and> ''vaughan'' \<in> set parts then
               (case indexOf parts ''vaughan'' of
                  Some vaughanIndex \<Rightarrow> (vaughanIndex + 1, name @ [''N''], ''Vaughan'')
                | None \<Rightarrow> (i, name @ [''N''], ''Vaughan''))
            else (i + 1, name, capitalizeWord (parts ! i)))
      else (i, name, []))"

definition intelligentAddressParsing :: "string list \<Rightarrow> js_error + string \<times> components" where
  "intelligentAddressParsing parts =
     (let (unit, number, i0) =
            (if length parts > 1 \<and> isNumeric (parts ! 0) \<and> isNumeric (parts ! 1)
               then (parts ! 0, parts ! 1, 2::nat)
             else if length parts > 0 \<and> isNumeric (parts ! 0)
               then ([], parts ! 0, 1)
             else ([], [], 0));
          (i1, name1, stype) = street_scan (drop i0 parts) i0 [];
          (i2, name2, cty) = city_step parts i1 name1;
          nbh = (if i2 < length parts then join '' '' (map capitalizeWord (drop i2 parts)) else []);
          addressComponents =
            \<lparr>unitNumber = unit, streetNumber = number, streetName = join '' '' name2,
             streetType = stype, city = cty, neighborhood = nbh\<rparr>
      in case formatAddress addressComponents of
           Inl e \<Rightarrow> Inl e
         | Inr formattedAddress \<Rightarrow> Inr (formattedAddress, addressComponents))"

datatype parse_result = Failure string | Success string components

text \<open>
  \<open>parseAddressFromUrl\<close>: the slug is lower-cased, stripped of leading and trailing
  slashes (\<open>/^\/+|\/+$/g\<close>), split at hyphens, and the empty pieces are dropped;
  \<open>parseAddressFromParts\<close> is the rest of the function, on the token sequence.
\<close>

definition slug_parts :: "string \<Rightarrow> string list" where
  "slug_parts urlSlug =
     (let lowered = toLowerCase urlSlug;
          stripped = rev (dropWhile (\<lambda>c. c = CHR ''/'') (rev (dropWhile (\<lambda>c. c = CHR ''/'') lowered)))
      in filter (\<lambda>part. length part > 0) (split_on CHR ''-'' stripped))"

definition parseAddressFromParts :: "string list \<Rightarrow> parse_result" where
  "parseAddressFromParts parts =
     (if length parts < 3 then Failure ''URL slug too short to parse address''
      else case intelligentAddressParsing parts of
             Inr (address, comps) \<Rightarrow> Success address comps
           | Inl e \<Rightarrow> Failure ''Could not parse address from URL'')"

definition parseAddressFromUrl :: "string \<Rightarrow> parse_result" where
  "parseAddressFromUrl urlSlug = parseAddressFromParts (slug_parts urlSlug)"

section \<open>Regular expressions\<close>

text \<open>
  The patterns of the program, as syntax trees, and the backtracking matcher of the
  ECMAScript specification in continuation-passing style: a matcher takes the state
  reached and the continuation that matches the rest of the pattern. Quantifiers are
  greedy; alternatives are tried from the left; a capture group is numbered by its opening
  parenthesis.
\<close>

datatype atom = Lit char | Range char char | Digit | Space

datatype regex =
    Chars "atom list"
  | Seq regex regex
  | Alt regex regex
  | Rep nat "nat option" regex
  | Group nat regex
  | WordBoundary

record mstate =
  prev :: "char option"
  rest :: string
  caps :: "(nat \<times> string) list"

definition in_range :: "char \<Rightarrow> char \<Rightarrow> char \<Rightarrow> bool" where
  "in_range lo hi c = (lo \<le> c \<and> c \<le> hi)"

text \<open>
  With the flag \<open>i\<close> two characters match when their canonical (upper-case) forms agree;
  a class matches when one of its members does.
\<close>

fun atom_match :: "bool \<Rightarrow> atom \<Rightarrow> char \<Rightarrow> bool" where
  "atom_match ci (Lit x) c = (if ci then upper_char x = upper_char c else x = c)"
| "atom_match ci (Range lo hi) c =
     (if ci then in_range lo hi c \<or> in_range lo hi (upper_char c) \<or> in_range lo hi (lower_char c)
      else in_range lo hi c)"
| "atom_match ci Digit c = is_digit c"
| "atom_match ci Space c = is_space c"

definition is_word_char :: "char \<Rightarrow> bool" where
  "is_word_char c = (is_upper c \<or> is_lower c \<or> is_digit c \<or> c = CHR ''_'')"

definition at_word_boundary :: "mstate \<Rightarrow> bool" where
  "at_word_boundary st =
     ((case prev st of None \<Rightarrow> False | Some c \<Rightarrow> is_word_char c)
      \<noteq> (case rest st of [] \<Rightarrow> False | c # _ \<Rightarrow> is_word_char c))"

text \<open>
  The continuation is a list of frames: a pattern still to match, the end of a capture
  group (with the text at its start), or the test after one iteration of a quantifier
  (with the text at the start of the iteration).
\<close>

datatype frame = Match regex | Close nat string | Check nat nat regex string

text \<open>
  The measure of the matcher. An unbounded quantifier is run as a bounded one whose bound,
  the minimum plus the length \<open>n\<close> of the text, it cannot reach: an iteration past the
  minimum has to consume a character.
\<close>

fun rsize :: "nat \<Rightarrow> regex \<Rightarrow> nat" where
  "rsize n (Chars as) = 1"
| "rsize n (Seq r1 r2) = rsize n r1 + rsize n r2 + 1"
| "rsize n (Alt r1 r2) = rsize n r1 + rsize n r2 + 1"
| "rsize n (Rep mn None r) = (rsize n r + 2) * (mn + n) + 2"
| "rsize n (Rep mn (Some mx) r) = (rsize n r + 2) * mx + 1"
| "rsize n (Group g r) = rsize n r + 2"
| "rsize n WordBoundary = 1"

fun fsize :: "nat \<Rightarrow> frame \<Rightarrow> nat" where
  "fsize n (Match r) = rsize n r"
| "fsize n (Close g s0) = 1"
| "fsize n (Check mn mx r s0) = (rsize n r + 2) * (mx - 1) + 2"

function (sequential) run :: "bool \<Rightarrow> nat \<Rightarrow> frame list \<Rightarrow> mstate \<Rightarrow> mstate option" where
  "run ci n [] st = Some st"
| "run ci n (Match (Chars as) # ks) st =
     (case rest st of
        [] \<Rightarrow> None
      | c # cs \<Rightarrow> if list_ex (\<lambda>a. atom_match ci a c) as
                  then run ci n ks (st\<lparr>prev := Some c, rest := cs\<rparr>) else None)"
| "run ci n (Match (Seq r1 r2) # ks) st = run ci n (Match r1 # Match r2 # ks) st"
| "run ci n (Match (Alt r1 r2) # ks) st =
     (case run ci n (Match r1 # ks) st of
        Some y \<Rightarrow> Some y
      | None \<Rightarrow> run ci n (Match r2 # ks) st)"
| "run ci n (Match (Group g r) # ks) st = run ci n (Match r # Close g (rest st) # ks) st"
| "run ci n (Close g s0 # ks) st =
     run ci n ks (st\<lparr>caps := (g, take (length s0 - length (rest st)) s0) # caps st\<rparr>)"
| "run ci n (Match WordBoundary # ks) st = (if at_word_boundary st then run ci n ks st else None)"
| "run ci n (Match (Rep mn None r) # ks) st = run ci n (Match (Rep mn (Some (mn + n)) r) # ks) st"
| "run ci n (Match (Rep mn (Some mx) r) # ks) st =
     (if mx = 0 then run ci n ks st
      else case run ci n (Match r # Check mn mx r (rest st) # ks) st of
             Some y \<Rightarrow> Some y
           | None \<Rightarrow> if mn = 0 then run ci n ks st else None)"
| "run ci n (Check mn mx r s0 # ks) st =
     (if mn = 0 \<and> rest st = s0 then None
      else run ci n (Match (Rep (mn - 1) (Some (mx - 1)) r) # ks) st)"
  by pat_completeness auto
termination
  apply (relation "measure (\<lambda>(ci, n, ks, st). sum_list (map (fsize n) ks))")
  apply simp_all
  subgoal for n mx r ks
    by (cases mx) (simp_all add: algebra_simps)
  done

text \<open>
  A match, as the array \<open>exec\<close> returns: the matched text at index 0, then one entry per
  capture group, \<open>None\<close> for a group that did not take part (\<open>undefined\<close>).
\<close>

fun group_count :: "regex \<Rightarrow> nat" where
  "group_count (Chars as) = 0"
| "group_count (Seq r1 r2) = group_count r1 + group_count r2"
| "group_count (Alt r1 r2) = group_count r1 + group_count r2"
| "group_count (Rep mn mx r) = group_count r"
| "group_count (Group g r) = Suc (group_count r)"
| "group_count WordBoundary = 0"

definition match_array :: "regex \<Rightarrow> string \<Rightarrow> mstate \<Rightarrow> string option list" where
  "match_array r start st =
     Some (take (length start - length (rest st)) start)
       # map (\<lambda>g. map_of (caps st) g) [1 ..< Suc (group_count r)]"

text \<open>
  \<open>exec_from\<close> tries the start positions from the left: it returns the text from the
  start of the match, the match array and the state after the match.
\<close>

fun exec_from ::
  "bool \<Rightarrow> nat \<Rightarrow> regex \<Rightarrow> char option \<Rightarrow> string \<Rightarrow> (string \<times> string option list \<times> mstate) option" where
  "exec_from ci n r p s =
     (case run ci n [Match r] \<lparr>prev = p, rest = s, caps = []\<rparr> of
        Some st \<Rightarrow> Some (s, match_array r s st, st)
      | None \<Rightarrow> (case s of [] \<Rightarrow> None | c # cs \<Rightarrow> exec_from ci n r (Some c) cs))"

text \<open>
  The matches of a pattern with the flag \<open>g\<close>, from the left and without overlap, as
  \<open>matchAll\<close> and \<open>match\<close> enumerate them: after a match the search goes on where it
  ended, one character further when the match was empty. The two length tests hold
  at every call (a match ends inside the text it started in); they make the recursion
  visibly decreasing.
\<close>

function matches_from :: "bool \<Rightarrow> nat \<Rightarrow> regex \<Rightarrow> char option \<Rightarrow> string \<Rightarrow> string option list list" where
  "matches_from ci n r p s =
     (case exec_from ci n r p s of
        None \<Rightarrow> []
      | Some (start, arr, st) \<Rightarrow>
          arr #
          (if rest st = start then
             (case start of
                [] \<Rightarrow> []
              | c # cs \<Rightarrow> if length cs < length s then matches_from ci n r (Some c) cs else [])
           else if length (rest st) < length s then matches_from ci n r (prev st) (rest st)
           else []))"
  by pat_completeness auto
termination
  by (relation "measure (\<lambda>(ci, n, r, p, s). length s)") auto

declare exec_from.simps [simp del] matches_from.simps [simp del]

definition matchAll :: "bool \<Rightarrow> regex \<Rightarrow> string \<Rightarrow> string option list list" where
  "matchAll ci r text = matches_from ci (length text) r None text"

text \<open>\<open>text.match(r)\<close> for a pattern with the flag \<open>g\<close>: the matched texts, or \<open>null\<close>.\<close>

definition match_global :: "bool \<Rightarrow> regex \<Rightarrow> string \<Rightarrow> string list option" where
  "match_global ci r text =
     (case matchAll ci r text of
        [] \<Rightarrow> None
      | ms \<Rightarrow> Some (map (\<lambda>m. case hd m of Some t \<Rightarrow> t | None \<Rightarrow> []) ms))"

text \<open>\<open>text.match(r)\<close> for a pattern without the flag \<open>g\<close>: the first match array, or \<open>null\<close>.\<close>

definition match_first :: "bool \<Rightarrow> regex \<Rightarrow> string \<Rightarrow> string option list option" where
  "match_first ci r text =
     (case exec_from ci (length text) r None text of
        None \<Rightarrow> None
      | Some (start, arr, st) \<Rightarrow> Some arr)"

definition lit :: "char \<Rightarrow> regex" where
  "lit c = Chars [Lit c]"

fun str :: "string \<Rightarrow> regex" where
  "str [] = Rep 0 (Some 0) (Chars [])"
| "str [c] = lit c"
| "str (c # cs) = Seq (lit c) (str cs)"

fun seqs :: "regex list \<Rightarrow> regex" where
  "seqs [] = Rep 0 (Some 0) (Chars [])"
| "seqs [r] = r"
| "seqs (r # rs) = Seq r (seqs rs)"

fun alts :: "regex list \<Rightarrow> regex" where
  "alts [] = Chars []"
| "alts [r] = r"
| "alts (r # rs) = Alt r (alts rs)"

definition optional :: "regex \<Rightarrow> regex" where
  "optional r = Rep 0 (Some 1) r"

definition zero_or_more :: "regex \<Rightarrow> regex" where
  "zero_or_more r = Rep 0 None r"

definition one_or_more :: "regex \<Rightarrow> regex" where
  "one_or_more r = Rep 1 None r"

section \<open>documentProcessor.js\<close>

text \<open>The patterns of the constructor, each with its flag \<open>i\<close>; all carry the flag \<open>g\<close>.\<close>

definition mls_id :: regex where
  \<comment> \<open>\<open>([A-Z]\d{7,8})\<close>\<close>
  "mls_id = Group 1 (Seq (Chars [Range CHR ''A'' CHR ''Z'']) (Rep 7 (Some 8) (Chars [Digit])))"

definition label_sep :: regex where
  \<comment> \<open>\<open>[#\s:]*\<close>\<close>
  "label_sep = zero_or_more (Chars [Lit CHR ''#'', Space, Lit CHR '':''])"

definition mlsPatterns :: "(bool \<times> regex) list" where
  "mlsPatterns =
     [(True, seqs [str ''MLS'', label_sep, mls_id]),
      (True, seqs [str ''MLS'', label_sep,
                   Group 1 (seqs [Chars [Range CHR ''A'' CHR ''Z''], Rep 6 (Some 7) (Chars [Digit]),
                                  lit CHR ''-'', optional (Chars [Range CHR ''A'' CHR ''Z''])])]),
      (False, seqs [WordBoundary, mls_id, WordBoundary]),
      (True, seqs [str ''Listing'', label_sep, mls_id]),
      (True, seqs [str ''Property'', label_sep, mls_id]),
      (True, seqs [str ''Reference'', label_sep, mls_id])]"

definition unit_re :: regex where
  \<comment> \<open>\<open>(\d+[-\s]?\d*)\<close>\<close>
  "unit_re =
     Group 1 (seqs [one_or_more (Chars [Digit]), optional (Chars [Lit CHR ''-'', Space]), zero_or_more (Chars [Digit])])"

definition letters_re :: regex where
  \<comment> \<open>\<open>[A-Za-z\s]+\<close>\<close>
  "letters_re = one_or_more (Chars [Range CHR ''A'' CHR ''Z'', Range CHR ''a'' CHR ''z'', Space])"

definition street_re :: regex where
  \<comment> \<open>\<open>([A-Za-z\s]+(?:St|Street|...|Terrace)\.?)\<close>\<close>
  "street_re =
     Group 2 (seqs [letters_re,
       alts (map str [''St'', ''Street'', ''Ave'', ''Avenue'', ''Rd'', ''Road'', ''Dr'', ''Drive'',
                      ''Blvd'', ''Boulevard'', ''Ln'', ''Lane'', ''Ct'', ''Court'', ''Cir'', ''Circle'',
                      ''Cres'', ''Crescent'', ''Pl'', ''Place'', ''Way'', ''Terr'', ''Terrace'']),
       optional (lit CHR ''.'')])"

definition province_re :: regex where
  "province_re =
     Group 4 (alts (map str [''ON'', ''Ontario'', ''BC'', ''British Columbia'', ''AB'', ''Alberta'',
                             ''QC'', ''Quebec'', ''MB'', ''Manitoba'', ''SK'', ''Saskatchewan'',
                             ''NS'', ''Nova Scotia'', ''NB'', ''New Brunswick'', ''NL'', ''Newfoundland'',
                             ''PE'', ''Prince Edward Island'']))"

definition addressPatterns :: "(bool \<times> regex) list" where
  "addressPatterns =
     [(True, seqs [unit_re, one_or_more (Chars [Space]), street_re,
                   zero_or_more (Chars [Space]), optional (lit CHR '',''), zero_or_more (Chars [Space]),
                   Group 3 letters_re, optional (lit CHR '',''), zero_or_more (Chars [Space]), province_re]),
      (True, seqs [unit_re, one_or_more (Chars [Space]), street_re,
                   zero_or_more (Chars [Space]), lit CHR '','', zero_or_more (Chars [Space]), Group 3 letters_re]),
      (True, seqs [unit_re, one_or_more (Chars [Space]), street_re])]"

record propertyDetails =
  prices :: "string list option"
  bedrooms :: "string option"
  bathrooms :: "string option"
  squareFootage :: "string option"
  propertyType :: "string option"

record results =
  mlsNumbers :: "string list"
  addresses :: "string list"
  details :: propertyDetails

definition no_details :: propertyDetails where
  "no_details = \<lparr>prices = None, bedrooms = None, bathrooms = None,
                  squareFootage = None, propertyType = None\<rparr>"

text \<open>\<open>match[i]\<close>: \<open>undefined\<close> past the end of the array and for a group that took no part.\<close>

definition element :: "string option list \<Rightarrow> nat \<Rightarrow> string option" where
  "element m i = (if i < length m then m ! i else None)"

text \<open>A value in a template literal: \<open>undefined\<close> prints as the word.\<close>

definition template :: "string option \<Rightarrow> string" where
  "template v = (case v of Some t \<Rightarrow> t | None \<Rightarrow> ''undefined'')"

text \<open>
  A loop body changes \<open>results\<close> in place and may raise; \<open>each\<close> runs it over the
  elements and stops at the first exception, keeping what was written so far.
\<close>

fun each :: "('s \<Rightarrow> 'a \<Rightarrow> 's \<times> js_error option) \<Rightarrow> 'a list \<Rightarrow> 's \<Rightarrow> 's \<times> js_error option" where
  "each f [] r = (r, None)"
| "each f (x # xs) r =
     (case f r x of
        (r', Some e) \<Rightarrow> (r', Some e)
      | (r', None) \<Rightarrow> each f xs r')"

text \<open>Lines 205 to 211: the callback of the MLS scan.\<close>

definition add_mls :: "results \<Rightarrow> string option list \<Rightarrow> results \<times> js_error option" where
  "add_mls r m =
     (case element m 1 of
        None \<Rightarrow> (r, Some TypeError)
      | Some t \<Rightarrow>
          (let mlsNumber = trim (toUpperCase t)
           in if mlsNumber \<noteq> [] \<and> mlsNumber \<notin> set (mlsNumbers r)
              then (r\<lparr>mlsNumbers := mlsNumbers r @ [mlsNumber]\<rparr>, None)
              else (r, None)))"

definition scan_mls :: "string \<Rightarrow> results \<Rightarrow> bool \<times> regex \<Rightarrow> results \<times> js_error option" where
  "scan_mls text r pat = each add_mls (matchAll (fst pat) (snd pat) text) r"

text \<open>
  Lines 219 to 239: the display string of a match. The branches test the length of the
  match array, which counts the whole match at index 0: 5, 4 and 3 for the three patterns.
\<close>

definition build_address :: "string option list \<Rightarrow> js_error + string" where
  "build_address m =
     (if length m \<ge> 4 then
        (case (element m 2, element m 3) of
           (Some streetv, Some cityv) \<Rightarrow>
             Inr (template (element m 1) @ '' '' @ trim streetv @ '', '' @ trim cityv
                  @ '', '' @ template (element m 4))
         | _ \<Rightarrow> Inl TypeError)
      else if length m \<ge> 3 then
        (case (element m 2, element m 3) of
           (Some streetv, Some cityv) \<Rightarrow>
             Inr (template (element m 1) @ '' '' @ trim streetv @ '', '' @ trim cityv)
         | _ \<Rightarrow> Inl TypeError)
      else if length m \<ge> 2 then
        (case element m 2 of
           Some streetv \<Rightarrow> Inr (template (element m 1) @ '' '' @ trim streetv)
         | None \<Rightarrow> Inl TypeError)
      else Inr [])"

text \<open>Lines 241 to 247: the duplicate filter.\<close>

definition is_duplicate :: "string list \<Rightarrow> string \<Rightarrow> bool" where
  "is_duplicate accepted address =
     list_ex (\<lambda>addr. str_includes (toLowerCase addr) (toLowerCase address)
                   \<or> str_includes (toLowerCase address) (toLowerCase addr)) accepted"

definition push_address :: "string list \<Rightarrow> string \<Rightarrow> string list" where
  "push_address accepted address =
     (if address \<noteq> [] \<and> \<not> is_duplicate accepted address then accepted @ [address]
      else accepted)"

definition add_address :: "results \<Rightarrow> string option list \<Rightarrow> results \<times> js_error option" where
  "add_address r m =
     (case build_address m of
        Inl e \<Rightarrow> (r, Some e)
      | Inr address \<Rightarrow> (r\<lparr>addresses := push_address (addresses r) address\<rparr>, None))"

definition scan_addresses :: "string \<Rightarrow> results \<Rightarrow> bool \<times> regex \<Rightarrow> results \<times> js_error option" where
  "scan_addresses text r pat = each add_address (matchAll (fst pat) (snd pat) text) r"

text \<open>\<open>extractPropertyDetails\<close>: its patterns, then the function.\<close>

definition price_re :: regex where
  \<comment> \<open>\<open>/\$[\d,]+/g\<close>\<close>
  "price_re = Seq (lit CHR ''$'') (one_or_more (Chars [Digit, Lit CHR '','']))"

definition bedroom_re :: regex where
  \<comment> \<open>\<open>/(\d+)\s*bed(?:room)?s?/gi\<close>\<close>
  "bedroom_re =
     seqs [Group 1 (one_or_more (Chars [Digit])), zero_or_more (Chars [Space]), str ''bed'',
           optional (str ''room''), optional (lit CHR ''s'')]"

definition decimal_re :: regex where
  \<comment> \<open>\<open>\d+(?:\.\d+)?\<close>\<close>
  "decimal_re = Seq (one_or_more (Chars [Digit])) (optional (Seq (lit CHR ''.'') (one_or_more (Chars [Digit]))))"

definition bathroom_re :: regex where
  \<comment> \<open>\<open>/(\d+(?:\.\d+)?)\s*bath(?:room)?s?/gi\<close>\<close>
  "bathroom_re =
     seqs [Group 1 decimal_re, zero_or_more (Chars [Space]), str ''bath'',
           optional (str ''room''), optional (lit CHR ''s'')]"

definition area_re :: regex where
  \<comment> \<open>\<open>\d+,?\d*\<close>\<close>
  "area_re = seqs [one_or_more (Chars [Digit]), optional (lit CHR '',''), zero_or_more (Chars [Digit])]"

definition sqft_re :: regex where
  \<comment> \<open>\<open>/(\d+,?\d*)\s*sq\.?\s*ft\.?/gi\<close>\<close>
  "sqft_re =
     seqs [Group 1 area_re, zero_or_more (Chars [Space]), str ''sq'', optional (lit CHR ''.''),
           zero_or_more (Chars [Space]), str ''ft'', optional (lit CHR ''.'')]"

definition typePatterns :: "regex list" where
  "typePatterns =
     [seqs [WordBoundary,
            Group 1 (alts (map str [''detached'', ''semi-detached'', ''townhouse'', ''condo'',
                                    ''condominium'', ''apartment'', ''duplex'', ''triplex'',
                                    ''bungalow'', ''ranch'', ''colonial''])),
            WordBoundary]]"

text \<open>\<open>s.replace(/,/g, '')\<close>\<close>

definition strip_commas :: "string \<Rightarrow> string" where
  "strip_commas s = filter (\<lambda>c. c \<noteq> CHR '','') s"

text \<open>
  \<open>matched[0].match(inner)[0]\<close>: the first match of \<open>inner\<close> in the first matched text;
  reading \<open>[0]\<close> of \<open>null\<close> raises.
\<close>

definition first_inner :: "regex \<Rightarrow> string list \<Rightarrow> js_error + string" where
  "first_inner inner matched =
     (case matched of
        [] \<Rightarrow> Inl TypeError
      | t # _ \<Rightarrow>
          (case match_first False inner t of
             None \<Rightarrow> Inl TypeError
           | Some arr \<Rightarrow> (case element arr 0 of None \<Rightarrow> Inl TypeError | Some u \<Rightarrow> Inr u)))"

definition price_step :: "string \<Rightarrow> propertyDetails \<Rightarrow> propertyDetails" where
  "price_step text d =
     (case match_global False price_re text of
        None \<Rightarrow> d
      | Some priceMatch \<Rightarrow> d\<lparr>prices := Some (map strip_commas priceMatch)\<rparr>)"

definition bedroom_step :: "string \<Rightarrow> propertyDetails \<Rightarrow> js_error + propertyDetails" where
  "bedroom_step text d =
     (case match_global True bedroom_re text of
        None \<Rightarrow> Inr d
      | Some bedroomMatch \<Rightarrow>
          (case first_inner (one_or_more (Chars [Digit])) bedroomMatch of
             Inl e \<Rightarrow> Inl e
           | Inr v \<Rightarrow> Inr (d\<lparr>bedrooms := Some v\<rparr>)))"

definition bathroom_step :: "string \<Rightarrow> propertyDetails \<Rightarrow> js_error + propertyDetails" where
  "bathroom_step text d =
     (case match_global True bathroom_re text of
        None \<Rightarrow> Inr d
      | Some bathroomMatch \<Rightarrow>
          (case first_inner decimal_re bathroomMatch of
             Inl e \<Rightarrow> Inl e
           | Inr v \<Rightarrow> Inr (d\<lparr>bathrooms := Some v\<rparr>)))"

definition sqft_step :: "string \<Rightarrow> propertyDetails \<Rightarrow> js_error + propertyDetails" where
  "sqft_step text d =
     (case match_global True sqft_re text of
        None \<Rightarrow> Inr d
      | Some sqftMatch \<Rightarrow>
          (case first_inner area_re sqftMatch of
             Inl e \<Rightarrow> Inl e
           | Inr v \<Rightarrow> Inr (d\<lparr>squareFootage := Some (strip_commas v)\<rparr>)))"

fun type_step :: "string \<Rightarrow> regex list \<Rightarrow> propertyDetails \<Rightarrow> propertyDetails" where
  "type_step text [] d = d"
| "type_step text (pattern # patterns) d =
     (case match_global True pattern text of
        Some (t # _) \<Rightarrow> d\<lparr>propertyType := Some (toLowerCase t)\<rparr>
      | _ \<Rightarrow> type_step text patterns d)"

text \<open>An exception inside the function is caught there: the details found so far are returned.\<close>

definition extractPropertyDetails :: "string \<Rightarrow> propertyDetails" where
  "extractPropertyDetails text =
     (let d1 = price_step text no_details
      in case bedroom_step text d1 of
           Inl e \<Rightarrow> d1
         | Inr d2 \<Rightarrow>
             (case bathroom_step text d2 of
                Inl e \<Rightarrow> d2
              | Inr d3 \<Rightarrow>
                  (case sqft_step text d3 of
                     Inl e \<Rightarrow> d3
                   | Inr d4 \<Rightarrow> type_step text typePatterns d4)))"

text \<open>
  \<open>parsePropertyInfo\<close>: the three stages run inside one \<open>try\<close>; an exception ends the
  block, and the function returns \<open>results\<close> as it stands.
\<close>

definition parsePropertyInfo :: "string \<Rightarrow> results" where
  "parsePropertyInfo text =
     (let r0 = \<lparr>mlsNumbers = [], addresses = [], details = no_details\<rparr>
      in case each (scan_mls text) mlsPatterns r0 of
           (r1, Some e) \<Rightarrow> r1
         | (r1, None) \<Rightarrow>
             (case each (scan_addresses text) addressPatterns r1 of
                (r2, Some e) \<Rightarrow> r2
              | (r2, None) \<Rightarrow> r2\<lparr>details := extractPropertyDetails text\<rparr>))"

section \<open>The route optimizer\<close>

subsection \<open>What the planner reads from its surroundings\<close>

text \<open>
  The planner reads the process environment, the wall clock, the random number generator,
  the host's locale (time format and collation) and the answer of the Directions Service.
  They are the fields of \<open>runtime\<close>: \<open>rnd rt i\<close> is the result of the \<open>i\<close>-th call of
  \<open>Math.random()\<close> during the invocation, a number from 0 up to but excluding 1, and
  \<open>clock rt\<close> the reading of \<open>new Date()\<close> in milliseconds.
\<close>

record leg =
  duration_value :: int
  duration_text :: string
  distance_text :: string

record directions_data =
  status :: string
  error_message :: "string option"
  routes :: "leg list list"

datatype reply = Rejected | Resolved directions_data

record runtime =
  env_key :: "string option"
  clock :: int
  rnd :: "nat \<Rightarrow> real"
  format_time :: "int \<Rightarrow> string"
  locale_compare :: "string \<Rightarrow> string \<Rightarrow> int"
  distance_label :: "string list \<Rightarrow> string"
  http_get :: "string \<Rightarrow> reply"

record property =
  address :: string
  visitDuration :: int
  mlsNumber :: "string option"

record step =
  step_type :: string
  step_address :: string
  arrivalTime :: string
  duration :: string
  distance :: "string option"
  step_visitDuration :: "int option"
  step_mlsNumber :: "string option"
  realTravelTime :: bool

record route =
  totalDuration :: string
  totalDistance :: "string option"
  startTime :: string
  returnTime :: string
  steps :: "step list"
  googleMapsUrl :: "string option"
  optimizationNotes :: "string option"

subsection \<open>Numbers in template literals\<close>

definition digit_char :: "int \<Rightarrow> char" where
  "digit_char d = (''0123456789'' ! nat d)"

function show_digits :: "int \<Rightarrow> string" where
  "show_digits n = (if n < 10 then [digit_char n] else show_digits (n div 10) @ [digit_char (n mod 10)])"
  by pat_completeness auto
termination
  by (relation "measure nat") auto

declare show_digits.simps [simp del]

definition show_int :: "int \<Rightarrow> string" where
  "show_int i = (if i < 0 then CHR ''-'' # show_digits (- i) else show_digits i)"

definition show_nat :: "nat \<Rightarrow> string" where
  "show_nat n = show_digits (int n)"

text \<open>\<open>a % b\<close> for a positive \<open>b\<close>: the remainder has the sign of \<open>a\<close>.\<close>

definition js_rem :: "int \<Rightarrow> int \<Rightarrow> int" where
  "js_rem a b = (if a < 0 then - ((- a) mod b) else a mod b)"

subsection \<open>The constructor\<close>

text \<open>
  Line 6 falls back to a key written into the source when the environment has none; the
  literal, a non-empty string, is not reproduced here.
\<close>

definition default_key :: string where
  "default_key = ''(the key literal of line 6)''"

definition googleApiKey :: "runtime \<Rightarrow> string" where
  "googleApiKey rt = (case env_key rt of Some k \<Rightarrow> if k \<noteq> [] then k else default_key | None \<Rightarrow> default_key)"

definition useSimulation :: "runtime \<Rightarrow> bool" where
  "useSimulation rt = (googleApiKey rt = [])"

definition directionsApiUrl :: string where
  "directionsApiUrl = ''https://maps.googleapis.com/maps/api/directions/json''"

subsection \<open>The visiting order\<close>

definition extractCity :: "string \<Rightarrow> string" where
  "extractCity addr =
     (let parts = split_on CHR '','' addr
      in if length parts \<ge> 2 then trim (parts ! 1) else ''Unknown'')"

definition extractStreetName :: "string \<Rightarrow> string" where
  "extractStreetName addr =
     (let parts = split_on CHR '','' addr
      in if length parts > 0 then trim (parts ! 0) else addr)"

text \<open>
  \<open>xs.sort(compare)\<close>. The sort is stable; for a comparator that orders its arguments
  consistently the result is the one list that is sorted and keeps equal elements in their
  order, which inserting the elements from the left computes.
\<close>

fun insert_by :: "('a \<Rightarrow> 'a \<Rightarrow> int) \<Rightarrow> 'a \<Rightarrow> 'a list \<Rightarrow> 'a list" where
  "insert_by cmp x [] = [x]"
| "insert_by cmp x (y # ys) = (if cmp x y < 0 then x # y # ys else y # insert_by cmp x ys)"

definition sort_by :: "('a \<Rightarrow> 'a \<Rightarrow> int) \<Rightarrow> 'a list \<Rightarrow> 'a list" where
  "sort_by cmp xs = foldl (\<lambda>acc x. insert_by cmp x acc) [] xs"

definition priorityMap :: "(string \<times> int) list" where
  "priorityMap =
     [(''Richmond Hill'', 1), (''Vaughan'', 2), (''Markham'', 3), (''North York'', 4),
      (''Scarborough'', 5), (''Toronto'', 6), (''Mississauga'', 7), (''Brampton'', 8),
      (''Oshawa'', 9)]"

text \<open>
  \<open>priorityMap[a] || 999\<close>: a number, or for an inherited name the member itself, which
  is equal to itself only and gives \<open>NaN\<close> in a subtraction; \<open>sort\<close> reads \<open>NaN\<close> as 0.
\<close>

datatype priority = Num int | Member string

definition priority_of :: "string \<Rightarrow> priority" where
  "priority_of a =
     (case lookup priorityMap a of
        Some (Own n) \<Rightarrow> Num n
      | Some Inherited \<Rightarrow> Member a
      | None \<Rightarrow> Num 999)"

definition compare_cities :: "runtime \<Rightarrow> string \<Rightarrow> string \<Rightarrow> int" where
  "compare_cities rt a b =
     (let priorityA = priority_of a; priorityB = priority_of b
      in if priorityA = priorityB then locale_compare rt a b
         else (case (priorityA, priorityB) of
                 (Num x, Num y) \<Rightarrow> x - y
               | _ \<Rightarrow> 0))"

definition getCityPriority :: "runtime \<Rightarrow> string list \<Rightarrow> string list" where
  "getCityPriority rt cities = sort_by (compare_cities rt) cities"

text \<open>
  \<open>groupedByCity\<close> is an object: its own keys in the order of their creation, with the
  inherited names answering as in every object. Lines 119 to 125 for one property.
\<close>

definition group_property ::
  "(string \<times> property list) list \<Rightarrow> property \<Rightarrow> js_error + (string \<times> property list) list" where
  "group_property grouped p =
     (let cty = extractCity (address p)
      in case lookup grouped cty of
           None \<Rightarrow> Inr (grouped @ [(cty, [p])])
         | Some (Own ps) \<Rightarrow> Inr (AList.update cty (ps @ [p]) grouped)
         | Some Inherited \<Rightarrow> Inl TypeError)"

fun group_all ::
  "(string \<times> property list) list \<Rightarrow> property list \<Rightarrow> js_error + (string \<times> property list) list" where
  "group_all grouped [] = Inr grouped"
| "group_all grouped (p # ps) =
     (case group_property grouped p of
        Inl e \<Rightarrow> Inl e
      | Inr grouped' \<Rightarrow> group_all grouped' ps)"

text \<open>
  \<open>Object.keys\<close>: the keys that are array indices (canonical decimal numerals below
  \<open>2^32 - 1\<close>) in ascending order, then the other keys in the order of their creation.
\<close>

definition digit_value :: "char \<Rightarrow> int" where
  "digit_value c = of_char c - 48"

definition array_index :: "string \<Rightarrow> int option" where
  "array_index k =
     (if k \<noteq> [] \<and> list_all is_digit k \<and> (k = ''0'' \<or> hd k \<noteq> CHR ''0'')
      then (let v = foldl (\<lambda>n c. 10 * n + digit_value c) 0 k
            in if v < 4294967295 then Some v else None)
      else None)"

definition object_keys :: "(string \<times> 'a) list \<Rightarrow> string list" where
  "object_keys obj =
     (let ks = map fst obj
      in sort_key (\<lambda>k. case array_index k of Some v \<Rightarrow> v | None \<Rightarrow> 0)
                  (filter (\<lambda>k. array_index k \<noteq> None) ks)
         @ filter (\<lambda>k. array_index k = None) ks)"

definition compare_streets :: "runtime \<Rightarrow> property \<Rightarrow> property \<Rightarrow> int" where
  "compare_streets rt a b =
     locale_compare rt (extractStreetName (address a)) (extractStreetName (address b))"

text \<open>Lines 138 to 148 for one city.\<close>

definition city_properties ::
  "runtime \<Rightarrow> (string \<times> property list) list \<Rightarrow> string \<Rightarrow> js_error + property list" where
  "city_properties rt grouped cty =
     (case lookup grouped cty of
        Some (Own ps) \<Rightarrow> Inr (sort_by (compare_streets rt) ps)
      | _ \<Rightarrow> Inl TypeError)"

fun collect :: "('a \<Rightarrow> js_error + 'b list) \<Rightarrow> 'a list \<Rightarrow> js_error + 'b list" where
  "collect f [] = Inr []"
| "collect f (x # xs) =
     (case f x of
        Inl e \<Rightarrow> Inl e
      | Inr ys \<Rightarrow> (case collect f xs of Inl e \<Rightarrow> Inl e | Inr zs \<Rightarrow> Inr (ys @ zs)))"

definition simulateOptimalOrder :: "runtime \<Rightarrow> property list \<Rightarrow> js_error + property list" where
  "simulateOptimalOrder rt properties =
     (case group_all [] properties of
        Inl e \<Rightarrow> Inl e
      | Inr groupedByCity \<Rightarrow>
          (let cities = object_keys groupedByCity;
               cityPriority = getCityPriority rt cities
           in collect (city_properties rt groupedByCity) cityPriority))"

subsection \<open>The map link\<close>

definition hex_digit :: "bool \<Rightarrow> bool \<Rightarrow> bool \<Rightarrow> bool \<Rightarrow> char" where
  "hex_digit b0 b1 b2 b3 =
     (''0123456789ABCDEF'' ! ((if b0 then 1 else 0) + (if b1 then 2 else 0)
                              + (if b2 then 4 else 0) + (if b3 then 8 else 0)))"

definition is_unreserved :: "char \<Rightarrow> bool" where
  "is_unreserved c = (is_upper c \<or> is_lower c \<or> is_digit c \<or> c \<in> set ''-_.!~*'' \<or> c = CHR 0x27
                      \<or> c = CHR ''('' \<or> c = CHR '')'')"

text \<open>
  \<open>encodeURIComponent\<close> on code units below 256: an escaped unit below 128 is one byte,
  one from 128 on the two bytes of its UTF-8 form.
\<close>

definition encode_unit :: "char \<Rightarrow> string" where
  "encode_unit c =
     (if is_unreserved c then [c]
      else (case c of Char b0 b1 b2 b3 b4 b5 b6 b7 \<Rightarrow>
              if b7 then [CHR ''%'', CHR ''C'', hex_digit b6 True False False,
                          CHR ''%'', hex_digit b4 b5 False True, hex_digit b0 b1 b2 b3]
              else [CHR ''%'', hex_digit b4 b5 b6 b7, hex_digit b0 b1 b2 b3]))"

definition encodeURIComponent :: "string \<Rightarrow> string" where
  "encodeURIComponent s = concat (map encode_unit s)"

definition generateGoogleMapsUrl :: "string \<Rightarrow> property list \<Rightarrow> string option" where
  "generateGoogleMapsUrl officeAddress properties =
     (let addresses = [officeAddress] @ map address properties @ [officeAddress];
          encodedAddresses = map encodeURIComponent addresses;
          baseUrl = ''https://www.google.com/maps/dir''
      in Some (baseUrl @ ''/'' @ join ''/'' encodedAddresses @ ''/''))"

subsection \<open>Simulation mode\<close>

record progress =
  currentTime :: int
  stepsSoFar :: "step list"
  totalDrivingTime :: int
  totalVisitTime :: int

text \<open>\<open>Math.floor(Math.random() * 20) + 10\<close> for the \<open>i\<close>-th call of \<open>Math.random\<close>.\<close>

definition drivingMinutes :: "runtime \<Rightarrow> nat \<Rightarrow> int" where
  "drivingMinutes rt i = \<lfloor>rnd rt i * 20\<rfloor> + 10"

text \<open>The loop of lines 57 to 78, from index \<open>i\<close> on.\<close>

fun visit_loop :: "runtime \<Rightarrow> property list \<Rightarrow> nat \<Rightarrow> progress \<Rightarrow> progress" where
  "visit_loop rt [] i s = s"
| "visit_loop rt (p # ps) i s =
     (let minutes = drivingMinutes rt i;
          arrival = currentTime s + minutes * 60000;
          visit = \<lparr>step_type = ''Visit Property '' @ show_nat (i + 1),
                   step_address = address p,
                   arrivalTime = format_time rt arrival,
                   duration = show_int minutes @ '' minutes driving'',
                   distance = None,
                   step_visitDuration = Some (visitDuration p),
                   step_mlsNumber = mlsNumber p,
                   realTravelTime = False\<rparr>
      in visit_loop rt ps (i + 1)
           \<lparr>currentTime = arrival + visitDuration p * 60000,
            stepsSoFar = stepsSoFar s @ [visit],
            totalDrivingTime = totalDrivingTime s + minutes,
            totalVisitTime = totalVisitTime s + visitDuration p\<rparr>)"

definition simulation_note :: string where
  "simulation_note = ''Note: This is a simulated route for demo purposes. In production, this would use Google Maps API for real traffic data and optimal routing.''"

definition simulateRouteOptimization :: "runtime \<Rightarrow> string \<Rightarrow> property list \<Rightarrow> js_error + route" where
  "simulateRouteOptimization rt officeAddress properties =
     (case simulateOptimalOrder rt properties of
        Inl e \<Rightarrow> Inl e
      | Inr optimizedProperties \<Rightarrow>
          (let start = \<lparr>step_type = ''Start'', step_address = officeAddress,
                        arrivalTime = format_time rt (clock rt), duration = ''0 minutes'',
                        distance = None, step_visitDuration = None, step_mlsNumber = None,
                        realTravelTime = False\<rparr>;
               s = visit_loop rt optimizedProperties 0
                     \<lparr>currentTime = clock rt, stepsSoFar = [start],
                      totalDrivingTime = 0, totalVisitTime = 0\<rparr>;
               returnDrivingMinutes = drivingMinutes rt (length optimizedProperties);
               driving = totalDrivingTime s + returnDrivingMinutes;
               arrival = currentTime s + returnDrivingMinutes * 60000;
               back = \<lparr>step_type = ''Return to Office'', step_address = officeAddress,
                       arrivalTime = format_time rt arrival,
                       duration = show_int returnDrivingMinutes @ '' minutes driving'',
                       distance = None, step_visitDuration = None, step_mlsNumber = None,
                       realTravelTime = False\<rparr>;
               allSteps = stepsSoFar s @ [back];
               totalMinutes = driving + totalVisitTime s
           in Inr \<lparr>totalDuration =
                      show_int (totalMinutes div 60) @ ''h '' @ show_int (js_rem totalMinutes 60)
                      @ ''m ('' @ show_int driving @ ''m driving + ''
                      @ show_int (totalVisitTime s) @ ''m visiting)'',
                    totalDistance = None,
                    startTime = arrivalTime (hd allSteps),
                    returnTime = arrivalTime (last allSteps),
                    steps = allSteps,
                    googleMapsUrl = generateGoogleMapsUrl officeAddress optimizedProperties,
                    optimizationNotes = (if useSimulation rt then Some simulation_note else None)\<rparr>))"

subsection \<open>Provider mode\<close>

text \<open>\<open>Math.ceil(seconds / 60)\<close>\<close>

definition ceil_minutes :: "int \<Rightarrow> int" where
  "ceil_minutes seconds = - ((- seconds) div 60)"

text \<open>The callback of \<open>legs.forEach\<close>, lines 276 to 321, for the leg of index \<open>i\<close>.\<close>

fun leg_loop :: "runtime \<Rightarrow> string \<Rightarrow> property list \<Rightarrow> leg list \<Rightarrow> nat \<Rightarrow> progress \<Rightarrow> progress" where
  "leg_loop rt officeAddress properties [] i s = s"
| "leg_loop rt officeAddress properties (l # ls) i s =
     (let drivingSeconds = duration_value l;
          minutes = ceil_minutes drivingSeconds;
          arrival = currentTime s + drivingSeconds * 1000;
          label = show_int minutes @ '' minutes driving ('' @ duration_text l @ '')''
      in if i < length properties then
           (let p = properties ! i
            in leg_loop rt officeAddress properties ls (i + 1)
                 \<lparr>currentTime = arrival + visitDuration p * 60000,
                  stepsSoFar = stepsSoFar s @
                    [\<lparr>step_type = ''Visit Property '' @ show_nat (i + 1),
                      step_address = address p,
                      arrivalTime = format_time rt arrival,
                      duration = label,
                      distance = Some (distance_text l),
                      step_visitDuration = Some (visitDuration p),
                      step_mlsNumber = mlsNumber p,
                      realTravelTime = True\<rparr>],
                  totalDrivingTime = totalDrivingTime s + drivingSeconds,
                  totalVisitTime = totalVisitTime s + visitDuration p\<rparr>)
         else
           leg_loop rt officeAddress properties ls (i + 1)
             \<lparr>currentTime = arrival,
              stepsSoFar = stepsSoFar s @
                [\<lparr>step_type = ''Return to Office'',
                  step_address = officeAddress,
                  arrivalTime = format_time rt arrival,
                  duration = label,
                  distance = Some (distance_text l),
                  step_visitDuration = None,
                  step_mlsNumber = None,
                  realTravelTime = True\<rparr>],
              totalDrivingTime = totalDrivingTime s + drivingSeconds,
              totalVisitTime = totalVisitTime s\<rparr>)"

text \<open>
  An identifier is resolved in the scope it stands in; one that no enclosing scope
  declares raises a ReferenceError.
\<close>

definition resolve :: "(string \<times> 'a) list \<Rightarrow> string \<Rightarrow> js_error + 'a" where
  "resolve scope name = (case map_of scope name of Some v \<Rightarrow> Inr v | None \<Rightarrow> Inl ReferenceError)"

text \<open>
  \<open>parseGoogleDirectionsResponse(data, officeAddress, properties)\<close>. At line 342 the
  declared identifiers are the three parameters, the locals \<open>route\<close>, \<open>legs\<close>,
  \<open>currentTime\<close>, \<open>steps\<close>, \<open>totalDrivingSeconds\<close>, \<open>totalVisitMinutes\<close>,
  \<open>totalDrivingMinutes\<close>, \<open>totalMinutes\<close>, \<open>totalDistanceKm\<close> and, in the module,
  \<open>axios\<close> and \<open>RouteOptimizer\<close>; of these \<open>properties\<close> holds a list of properties.
  The total distance is computed in floating point from the distance texts and cannot
  raise; \<open>distance_label\<close> stands for that computation.
\<close>

definition parseGoogleDirectionsResponse ::
  "runtime \<Rightarrow> directions_data \<Rightarrow> string \<Rightarrow> property list \<Rightarrow> js_error + route" where
  "parseGoogleDirectionsResponse rt data officeAddress properties =
     (case routes data of
        [] \<Rightarrow> Inl TypeError
      | legs # _ \<Rightarrow>
          if legs = [] then Inl (Error ''No route legs found in Google Directions response'')
          else
            (let start = \<lparr>step_type = ''Start'', step_address = officeAddress,
                          arrivalTime = format_time rt (clock rt),
                          duration = ''0 minutes driving'',
                          distance = None, step_visitDuration = None, step_mlsNumber = None,
                          realTravelTime = True\<rparr>;
                 s = leg_loop rt officeAddress properties legs 0
                       \<lparr>currentTime = clock rt, stepsSoFar = [start],
                        totalDrivingTime = 0, totalVisitTime = 0\<rparr>;
                 totalDrivingMinutes = ceil_minutes (totalDrivingTime s);
                 totalMinutes = totalDrivingMinutes + totalVisitTime s;
                 totalDistanceLabel = distance_label rt (map distance_text legs)
             in case resolve [(''properties'', properties)] ''optimizedProperties'' of
                  Inl e \<Rightarrow> Inl e
                | Inr optimizedProperties \<Rightarrow>
                    Inr \<lparr>totalDuration =
                           show_int (totalMinutes div 60) @ ''h '' @ show_int (js_rem totalMinutes 60)
                           @ ''m ('' @ show_int totalDrivingMinutes @ ''m driving + ''
                           @ show_int (totalVisitTime s) @ ''m visiting)'',
                         totalDistance = Some totalDistanceLabel,
                         startTime = arrivalTime (hd (stepsSoFar s)),
                         returnTime = arrivalTime (last (stepsSoFar s)),
                         steps = stepsSoFar s,
                         googleMapsUrl = generateGoogleMapsUrl officeAddress optimizedProperties,
                         optimizationNotes = Some ''Real-time travel estimates from Google Maps API with current traffic conditions.''\<rparr>))"

definition directions_url :: "runtime \<Rightarrow> string \<Rightarrow> property list \<Rightarrow> string" where
  "directions_url rt officeAddress optimizedProperties =
     directionsApiUrl @ ''?''
     @ ''origin='' @ encodeURIComponent officeAddress
     @ ''&destination='' @ encodeURIComponent officeAddress
     @ ''&waypoints='' @ join ''|'' (map (\<lambda>p. encodeURIComponent (address p)) optimizedProperties)
     @ ''&optimize_waypoints=false''
     @ ''&units=metric''
     @ ''&departure_time=now''
     @ ''&traffic_model=best_guess''
     @ ''&key='' @ googleApiKey rt"

definition optimizeWithGoogleAPI :: "runtime \<Rightarrow> string \<Rightarrow> property list \<Rightarrow> js_error + route" where
  "optimizeWithGoogleAPI rt officeAddress properties =
     (case simulateOptimalOrder rt properties of
        Inl e \<Rightarrow> Inl e
      | Inr optimizedProperties \<Rightarrow>
          (case http_get rt (directions_url rt officeAddress optimizedProperties) of
             Rejected \<Rightarrow> Inl (Error ''request failed'')
           | Resolved data \<Rightarrow>
               if status data \<noteq> ''OK''
               then Inl (Error (''Google API error: '' @ status data @ '' - ''
                                @ (case error_message data of
                                     Some msg \<Rightarrow> if msg \<noteq> [] then msg else ''Unknown error''
                                   | None \<Rightarrow> ''Unknown error'')))
               else parseGoogleDirectionsResponse rt data officeAddress optimizedProperties))"

text \<open>\<open>optimizeRoute\<close>, the planner's entry point: any exception of provider mode is caught.\<close>

definition optimizeRoute :: "runtime \<Rightarrow> string \<Rightarrow> property list \<Rightarrow> js_error + route" where
  "optimizeRoute rt officeAddress properties =
     (case optimizeWithGoogleAPI rt officeAddress properties of
        Inr r \<Rightarrow> Inr r
      | Inl e \<Rightarrow> simulateRouteOptimization rt officeAddress properties)"

section \<open>Observations used in the statements\<close>

definition is_failure :: "parse_result \<Rightarrow> bool" where
  "is_failure r = (case r of Failure m \<Rightarrow> True | Success a c \<Rightarrow> False)"

definition parsed_address :: "parse_result \<Rightarrow> string option" where
  "parsed_address r = (case r of Failure m \<Rightarrow> None | Success a c \<Rightarrow> Some a)"

definition parsed_components :: "parse_result \<Rightarrow> components option" where
  "parsed_components r = (case r of Failure m \<Rightarrow> None | Success a c \<Rightarrow> Some c)"

(*PROPS*)

section \<open>The address normalizer\<close>

lemma lookup_not_inherited:
  "\<not> inherited k \<Longrightarrow> lookup table k = Some v \<Longrightarrow> \<exists>x. v = Own x"
  by (auto simp: lookup_def split: option.splits)

lemma street_scan_own:
  "\<forall>p \<in> set ps. \<not> inherited p \<Longrightarrow> street_scan ps i name = (j, name', t) \<Longrightarrow> \<exists>x. t = Own x"
proof (induction ps arbitrary: i name)
  case Nil
  then show ?case by auto
next
  case (Cons part rest)
  show ?case
  proof (cases "lookup streetSuffixes part")
    case None
    with Cons show ?thesis by (auto split: if_splits)
  next
    case (Some v)
    with Cons.prems have "t = v" by simp
    moreover from Cons.prems Some have "\<exists>x. v = Own x"
      by (auto dest: lookup_not_inherited)
    ultimately show ?thesis by simp
  qed
qed

lemma intelligentAddressParsing_ok:
  assumes "\<forall>p \<in> set parts. \<not> inherited p"
  shows "\<exists>a c. intelligentAddressParsing parts = Inr (a, c)"
proof -
  obtain u n i0 where init:
    "(if length parts > 1 \<and> isNumeric (parts ! 0) \<and> isNumeric (parts ! 1)
               then (parts ! 0, parts ! 1, 2::nat)
             else if length parts > 0 \<and> isNumeric (parts ! 0)
               then ([], parts ! 0, 1)
             else ([], [], 0)) = (u, n, i0)"
    by (metis prod_cases3)
  obtain i1 name1 stype where scan: "street_scan (drop i0 parts) i0 [] = (i1, name1, stype)"
    by (metis prod_cases3)
  obtain i2 name2 cty where cs: "city_step parts i1 name1 = (i2, name2, cty)"
    by (metis prod_cases3)
  have "\<forall>p \<in> set (drop i0 parts). \<not> inherited p"
    using assms by (meson in_set_dropD)
  from street_scan_own[OF this scan] obtain x where "stype = Own x" by blast
  then show ?thesis
    using init scan cs
    by (simp add: intelligentAddressParsing_def Let_def formatAddress_def)
qed

text \<open>
  C4. On the tokens 908, 15, bay, street, toronto the scan stops at once: with three tokens
  left, \<open>isLikelyCity\<close> takes \<open>bay\<close> for the locality. The parse succeeds with unit 908
  and street number 15, but with no street name and no street type, the city \<open>Bay\<close>, and
  the address \<open>908 - 15 , Bay, Ontario\<close>; \<open>street\<close> and \<open>toronto\<close> end up in the
  neighbourhood.
\<close>

theorem normalize_bay_street:
  "parseAddressFromParts [''908'', ''15'', ''bay'', ''street'', ''toronto'']
   = Success ''908 - 15 , Bay, Ontario''
       \<lparr>unitNumber = ''908'', streetNumber = ''15'', streetName = [],
        streetType = Own [], city = ''Bay'', neighborhood = ''Street Toronto''\<rparr>"
  by code_simp

text \<open>The result the specification gives for these tokens is not the one computed.\<close>

theorem normalize_bay_street_counterexample:
  "\<not> (parsed_address (parseAddressFromParts [''908'', ''15'', ''bay'', ''street'', ''toronto''])
        = Some ''908 - 15 BAY ST, Toronto, Ontario''
      \<and> map_option unitNumber (parsed_components (parseAddressFromParts [''908'', ''15'', ''bay'', ''street'', ''toronto''])) = Some ''908''
      \<and> map_option streetNumber (parsed_components (parseAddressFromParts [''908'', ''15'', ''bay'', ''street'', ''toronto''])) = Some ''15''
      \<and> map_option streetName (parsed_components (parseAddressFromParts [''908'', ''15'', ''bay'', ''street'', ''toronto''])) = Some ''Bay''
      \<and> map_option streetType (parsed_components (parseAddressFromParts [''908'', ''15'', ''bay'', ''street'', ''toronto''])) = Some (Own ''St'')
      \<and> map_option city (parsed_components (parseAddressFromParts [''908'', ''15'', ''bay'', ''street'', ''toronto''])) = Some ''Toronto'')"
  by code_simp

text \<open>With one more token after the city the same slug parses as the specification says.\<close>

lemma normalize_bay_street_longer:
  "parseAddressFromParts [''908'', ''15'', ''bay'', ''street'', ''toronto'', ''waterfront'']
   = Success ''908 - 15 BAY ST, Toronto, Ontario''
       \<lparr>unitNumber = ''908'', streetNumber = ''15'', streetName = ''Bay'',
        streetType = Own ''St'', city = ''Toronto'', neighborhood = ''Waterfront''\<rparr>"
  by code_simp

text \<open>
  C5. For tokens none of which is a name every object inherits, the parse fails exactly
  when there are fewer than three tokens. The result is a value in every case: the
  exceptions of the parser are caught inside it.
\<close>

theorem normalize_failure:
  assumes "\<forall>p \<in> set parts. \<not> inherited p"
  shows "is_failure (parseAddressFromParts parts) \<longleftrightarrow> length parts < 3"
  using intelligentAddressParsing_ok[OF assms]
  by (auto simp: parseAddressFromParts_def is_failure_def)

theorem normalize_failure_witness:
  "\<not> is_failure (parseAddressFromParts [''12'', ''34'', ''56''])
   \<and> is_failure (parseAddressFromParts [''12'', ''main''])"
proof -
  have h1: "\<forall>p \<in> set [''12'', ''34'', ''56'']. \<not> inherited p"
    by (simp add: inherited_def object_prototype_keys_def)
  have h2: "\<forall>p \<in> set [''12'', ''main'']. \<not> inherited p"
    by (simp add: inherited_def object_prototype_keys_def)
  show ?thesis
    using normalize_failure[OF h1] normalize_failure[OF h2] by simp
qed

text \<open>
  Three numeric tokens leave nothing to form a street name from, and the parse still
  succeeds, with an empty street name: no test on the street name exists in the parser.
\<close>

theorem normalize_no_street_counterexample:
  "parseAddressFromParts [''12'', ''34'', ''56'']
   = Success ''12 - 34 , 56, Ontario''
       \<lparr>unitNumber = ''12'', streetNumber = ''34'', streetName = [],
        streetType = Own [], city = ''56'', neighborhood = []\<rparr>"
  by code_simp

text \<open>
  A token that names an inherited member is taken for a street suffix, and formatting the
  address raises; the parser catches the exception and reports a failure.
\<close>

lemma normalize_inherited_token:
  "parseAddressFromUrl ''/12-constructor-toronto/'' = Failure ''Could not parse address from URL''"
  by code_simp

end
